theory Spec2Isabelle
  imports Main
begin

section \<open>Values, exceptions and the notebook's kernel state\<close>

text \<open>
  The notebook \<^verbatim>\<open>meetupNotebook_API_and_pywikibot.ipynb\<close> talks to a remote JSON API
  through the \<^verbatim>\<open>requests\<close> library. The Python values it handles are the decoded
  JSON replies. A decoded JSON object is a Python dict; it is kept as the list of its
  items (the keys of a dict are distinct) and read with \<open>map_of\<close>. Numbers are kept as
  integers: no cell computes with them, a number is only ever printed or refused as the
  target of a key lookup.
\<close>

datatype json =
    JNull
  | JBool bool
  | JNum int
  | JStr string
  | JArr "json list"
  | JObj "(string \<times> json) list"

text \<open>The exceptions the cells can raise. No cell contains a \<^verbatim>\<open>try\<close>.\<close>

datatype py_error =
    NameError string
  | KeyError string
  | TypeError
  | ConnectionError
  | JSONDecodeError

text \<open>
  \<^verbatim>\<open>v[k]\<close> with a string key: a dict is looked up (\<^verbatim>\<open>KeyError\<close> when the key is
  missing), every other JSON value refuses a string index with \<^verbatim>\<open>TypeError\<close>.
\<close>

definition subscript :: "json \<Rightarrow> string \<Rightarrow> py_error + json" where
  "subscript v k =
     (case v of
        JObj kvs \<Rightarrow> (case map_of kvs k of None \<Rightarrow> Inl (KeyError k) | Some x \<Rightarrow> Inr x)
      | _ \<Rightarrow> Inl TypeError)"

text \<open>
  An outbound call as handed to \<^verbatim>\<open>requests\<close>: the session object it goes through, the
  HTTP verb, the URL and the dict passed as \<^verbatim>\<open>params=\<close> or \<^verbatim>\<open>data=\<close>, in source order.
\<close>

datatype verb = GET | POST

record request =
  via :: nat
  verb :: verb
  url :: string
  params :: "(string \<times> json) list"

text \<open>
  What comes back: \<^verbatim>\<open>session.get\<close>/\<^verbatim>\<open>session.post\<close> either raise (no connection)
  or return a response object, whose \<^verbatim>\<open>.json()\<close> either raises or yields a JSON value.
  The notebook never looks at the HTTP status.
\<close>

datatype body = NotJson | Json json

datatype reply = ConnectionFailed | Response body

text \<open>
  The kernel state: the remote side \<open>world\<close> (anything; it is stepped by the remote's
  transition function), the log of exchanges made so far, what has been printed (one entry
  per \<^verbatim>\<open>print\<close> call, holding its arguments), the counter that names new session objects,
  and the three notebook variables \<^verbatim>\<open>session\<close>, \<^verbatim>\<open>response\<close> and \<^verbatim>\<open>token\<close>
  (\<open>None\<close> while unbound).
\<close>

record 'w nb =
  world :: 'w
  exchanges :: "(request \<times> reply) list"
  stdout :: "json list list"
  next_session :: nat
  session :: "nat option"
  response :: "body option"
  token :: "json option"

type_synonym 'w remote = "'w \<Rightarrow> request \<Rightarrow> reply \<times> 'w"

type_synonym ('w, 'a) py = "'w nb \<Rightarrow> (py_error + 'a) \<times> 'w nb"

definition py_return :: "'a \<Rightarrow> ('w, 'a) py" where
  "py_return x = (\<lambda>st. (Inr x, st))"

definition py_raise :: "py_error \<Rightarrow> ('w, 'a) py" where
  "py_raise e = (\<lambda>st. (Inl e, st))"

text \<open>Sequencing: an exception ends the computation with the state reached so far.\<close>

definition py_bind :: "('w, 'a) py \<Rightarrow> ('a \<Rightarrow> ('w, 'b) py) \<Rightarrow> ('w, 'b) py" where
  "py_bind m f = (\<lambda>st. case m st of (Inl e, st') \<Rightarrow> (Inl e, st') | (Inr x, st') \<Rightarrow> f x st')"

subsection \<open>Primitive statements\<close>

definition API_URI :: string where
  "API_URI = ''https://www.wikidata.org/w/api.php''"

text \<open>\<^verbatim>\<open>requests.Session()\<close>: a new session object, distinct from all earlier ones.\<close>

definition Session :: "('w, nat) py" where
  "Session = (\<lambda>st. (Inr (next_session st), st\<lparr>next_session := Suc (next_session st)\<rparr>))"

definition store_session :: "nat \<Rightarrow> ('w, unit) py" where
  "store_session s = (\<lambda>st. (Inr (), st\<lparr>session := Some s\<rparr>))"

definition load_session :: "('w, nat) py" where
  "load_session = (\<lambda>st. case session st of None \<Rightarrow> (Inl (NameError ''session''), st)
                                          | Some s \<Rightarrow> (Inr s, st))"

definition store_response :: "body \<Rightarrow> ('w, unit) py" where
  "store_response b = (\<lambda>st. (Inr (), st\<lparr>response := Some b\<rparr>))"

definition load_response :: "('w, body) py" where
  "load_response = (\<lambda>st. case response st of None \<Rightarrow> (Inl (NameError ''response''), st)
                                            | Some b \<Rightarrow> (Inr b, st))"

definition store_token :: "json \<Rightarrow> ('w, unit) py" where
  "store_token t = (\<lambda>st. (Inr (), st\<lparr>token := Some t\<rparr>))"

definition load_token :: "('w, json) py" where
  "load_token = (\<lambda>st. case token st of None \<Rightarrow> (Inl (NameError ''token''), st)
                                      | Some t \<Rightarrow> (Inr t, st))"

text \<open>
  \<^verbatim>\<open>session.get(API_URI, params=d)\<close> and \<^verbatim>\<open>session.post(API_URI, data=d)\<close>: one
  request goes out, the remote side moves on, the exchange is logged; a failed connection
  raises.
\<close>

definition send :: "'w remote \<Rightarrow> nat \<Rightarrow> verb \<Rightarrow> (string \<times> json) list \<Rightarrow> ('w, body) py" where
  "send srv s vb d =
     (\<lambda>st. let q = \<lparr>via = s, verb = vb, url = API_URI, params = d\<rparr> in
        case srv (world st) q of
          (r, w') \<Rightarrow>
            (case r of
               ConnectionFailed \<Rightarrow>
                 (Inl ConnectionError, st\<lparr>world := w', exchanges := exchanges st @ [(q, r)]\<rparr>)
             | Response b \<Rightarrow>
                 (Inr b, st\<lparr>world := w', exchanges := exchanges st @ [(q, r)]\<rparr>)))"

text \<open>\<^verbatim>\<open>response.json()\<close>\<close>

definition json_of :: "body \<Rightarrow> ('w, json) py" where
  "json_of b = (case b of NotJson \<Rightarrow> py_raise JSONDecodeError | Json j \<Rightarrow> py_return j)"

definition item :: "json \<Rightarrow> string \<Rightarrow> ('w, json) py" where
  "item v k = (case subscript v k of Inl e \<Rightarrow> py_raise e | Inr x \<Rightarrow> py_return x)"

definition print :: "json list \<Rightarrow> ('w, unit) py" where
  "print args = (\<lambda>st. (Inr (), st\<lparr>stdout := stdout st @ [args]\<rparr>))"

section \<open>The cells of the authenticated write\<close>

text \<open>
  Cell 17:
  \<^verbatim>\<open>
  session = requests.Session()
  response = session.get(API_URI, params={'action': 'query', 'format': 'json',
                                          'meta': 'tokens', 'type': 'login'})
  token = response.json()['query']['tokens']['logintoken']
  print('retrieved login token:', token)
  \<close>
\<close>

definition cell17 :: "'w remote \<Rightarrow> ('w, unit) py" where
  "cell17 srv =
     py_bind Session (\<lambda>s.
     py_bind (store_session s) (\<lambda>_.
     py_bind load_session (\<lambda>s.
     py_bind (send srv s GET
        [(''action'', JStr ''query''),
         (''format'', JStr ''json''),
         (''meta'', JStr ''tokens''),
         (''type'', JStr ''login'')]) (\<lambda>r.
     py_bind (store_response r) (\<lambda>_.
     py_bind load_response (\<lambda>r.
     py_bind (json_of r) (\<lambda>j.
     py_bind (item j ''query'') (\<lambda>a.
     py_bind (item a ''tokens'') (\<lambda>b.
     py_bind (item b ''logintoken'') (\<lambda>t.
     py_bind (store_token t) (\<lambda>_.
     py_bind load_token (\<lambda>t.
     print [JStr ''retrieved login token:'', t]))))))))))))"

text \<open>
  Cell 19, with the two credentials of the source as parameters:
  \<^verbatim>\<open>
  response = session.post(API_URI, data={'action': 'login', 'lgname': ...,
                 'lgpassword': ..., 'lgtoken': token, 'format': 'json'})
  print('login:', response.json()['login']['result'])
  \<close>
\<close>

definition cell19 :: "'w remote \<Rightarrow> string \<Rightarrow> string \<Rightarrow> ('w, unit) py" where
  "cell19 srv lgname lgpassword =
     py_bind load_session (\<lambda>s.
     py_bind load_token (\<lambda>t.
     py_bind (send srv s POST
        [(''action'', JStr ''login''),
         (''lgname'', JStr lgname),
         (''lgpassword'', JStr lgpassword),
         (''lgtoken'', t),
         (''format'', JStr ''json'')]) (\<lambda>r.
     py_bind (store_response r) (\<lambda>_.
     py_bind load_response (\<lambda>r.
     py_bind (json_of r) (\<lambda>j.
     py_bind (item j ''login'') (\<lambda>a.
     py_bind (item a ''result'') (\<lambda>res.
     print [JStr ''login:'', res]))))))))"

text \<open>
  Cell 21:
  \<^verbatim>\<open>
  response = session.get(API_URI, params={'action': 'query', 'format': 'json',
                                          'meta': 'tokens'})
  token = response.json()['query']['tokens']['csrftoken']
  print('working token:', token)
  \<close>
\<close>

definition cell21 :: "'w remote \<Rightarrow> ('w, unit) py" where
  "cell21 srv =
     py_bind load_session (\<lambda>s.
     py_bind (send srv s GET
        [(''action'', JStr ''query''),
         (''format'', JStr ''json''),
         (''meta'', JStr ''tokens'')]) (\<lambda>r.
     py_bind (store_response r) (\<lambda>_.
     py_bind load_response (\<lambda>r.
     py_bind (json_of r) (\<lambda>j.
     py_bind (item j ''query'') (\<lambda>a.
     py_bind (item a ''tokens'') (\<lambda>b.
     py_bind (item b ''csrftoken'') (\<lambda>t.
     py_bind (store_token t) (\<lambda>_.
     py_bind load_token (\<lambda>t.
     print [JStr ''working token:'', t]))))))))))"

text \<open>
  Cell 23, with the five literals of the source as parameters:
  \<^verbatim>\<open>
  response = session.post(API_URI, data={'action': 'wbcreateclaim', 'entity': ...,
                 'format': 'json', 'property': ..., 'snaktype': ..., 'summary': ...,
                 'token': token, 'value': ...})
  print(response.json())
  \<close>
\<close>

definition cell23 ::
  "'w remote \<Rightarrow> string \<Rightarrow> string \<Rightarrow> string \<Rightarrow> string \<Rightarrow> string \<Rightarrow> ('w, unit) py" where
  "cell23 srv entity property snaktype summary val =
     py_bind load_session (\<lambda>s.
     py_bind load_token (\<lambda>t.
     py_bind (send srv s POST
        [(''action'', JStr ''wbcreateclaim''),
         (''entity'', JStr entity),
         (''format'', JStr ''json''),
         (''property'', JStr property),
         (''snaktype'', JStr snaktype),
         (''summary'', JStr summary),
         (''token'', t),
         (''value'', JStr val)]) (\<lambda>r.
     py_bind (store_response r) (\<lambda>_.
     py_bind load_response (\<lambda>r.
     py_bind (json_of r) (\<lambda>j.
     print [j]))))))"

text \<open>
  Running cells one after the other, top to bottom, as the notebook's "run all" does: the
  first exception stops the run, and the cells below it are not executed. The state
  reached at the exception stays: a cell run by hand afterwards starts from it.
\<close>

fun run_cells :: "('w, unit) py list \<Rightarrow> ('w, unit) py" where
  "run_cells [] st = (Inr (), st)"
| "run_cells (c # cs) st =
     (case c st of (Inl e, st') \<Rightarrow> (Inl e, st') | (Inr _, st') \<Rightarrow> run_cells cs st')"

text \<open>The three-step handshake, and the whole authenticated write.\<close>

definition authenticate :: "'w remote \<Rightarrow> string \<Rightarrow> string \<Rightarrow> ('w, unit) py list" where
  "authenticate srv lgname lgpassword = [cell17 srv, cell19 srv lgname lgpassword, cell21 srv]"

record intent =
  entity :: string
  property :: string
  snaktype :: string
  summary :: string
  val :: string

definition write_procedure ::
  "'w remote \<Rightarrow> string \<Rightarrow> string \<Rightarrow> intent \<Rightarrow> ('w, unit) py list" where
  "write_procedure srv lgname lgpassword i =
     authenticate srv lgname lgpassword
       @ [cell23 srv (entity i) (property i) (snaktype i) (summary i) (val i)]"

text \<open>The literals of the notebook.\<close>

definition LGNAME :: string where
  "LGNAME = ''Lkastler@wikidata_zurich''"

definition LGPASSWORD :: string where
  "LGPASSWORD = ''7343er7i5aspf9182s13mp70j8b9tjj3''"

definition sandbox_claim :: intent where
  "sandbox_claim =
     \<lparr>entity = ''Q15397819'', property = ''P103'', snaktype = ''value'',
      summary = ''add claim to sandbox'',
      val = ''{'' @ [CHR 0x22] @ ''entity-type'' @ [CHR 0x22] @ '':'' @ [CHR 0x22] @ ''item''
            @ [CHR 0x22] @ '','' @ [CHR 0x22] @ ''id'' @ [CHR 0x22] @ '':'' @ [CHR 0x22]
            @ ''Q188'' @ [CHR 0x22] @ ''}''\<rparr>"

definition notebook :: "'w remote \<Rightarrow> ('w, unit) py list" where
  "notebook srv = write_procedure srv LGNAME LGPASSWORD sandbox_claim"

section \<open>The search-result loop of cell 5\<close>

text \<open>
  The last statement of cell 5:
  \<^verbatim>\<open>
  for hit in search_results:
      page_id = hit['id']
      label = hit['label'] if 'label' in hit else ''
      description = '(' + hit['description'] + ')' if 'description' in hit else ''
      print(page_id + ': ' + label + ' ' + description)
  \<close>
  Every \<^verbatim>\<open>+\<close> of the loop body has a string literal or the result of an earlier
  \<^verbatim>\<open>+\<close> on one side, so it succeeds exactly when the other side is a string too.
\<close>

definition str_add :: "json \<Rightarrow> json \<Rightarrow> ('w, json) py" where
  "str_add a b =
     (case a of
        JStr x \<Rightarrow> (case b of JStr y \<Rightarrow> py_return (JStr (x @ y)) | _ \<Rightarrow> py_raise TypeError)
      | _ \<Rightarrow> py_raise TypeError)"

text \<open>
  \<^verbatim>\<open>k in hit\<close>. It is evaluated after \<^verbatim>\<open>hit['id']\<close> has succeeded, which only a
  dict allows, so only the dict case can be reached.
\<close>

definition has_key :: "string \<Rightarrow> json \<Rightarrow> ('w, bool) py" where
  "has_key k v =
     (case v of
        JObj kvs \<Rightarrow> py_return (map_of kvs k \<noteq> None)
      | _ \<Rightarrow> py_raise TypeError)"

definition show_hit :: "json \<Rightarrow> ('w, unit) py" where
  "show_hit hit =
     py_bind (item hit ''id'') (\<lambda>page_id.
     py_bind (has_key ''label'' hit) (\<lambda>c.
     py_bind (if c then item hit ''label'' else py_return (JStr '''')) (\<lambda>label.
     py_bind (has_key ''description'' hit) (\<lambda>c.
     py_bind (if c then py_bind (item hit ''description'') (\<lambda>d.
                        py_bind (str_add (JStr ''('') d) (\<lambda>x.
                        str_add x (JStr '')'')))
              else py_return (JStr '''')) (\<lambda>description.
     py_bind (str_add page_id (JStr '': '')) (\<lambda>x.
     py_bind (str_add x label) (\<lambda>y.
     py_bind (str_add y (JStr '' '')) (\<lambda>z.
     py_bind (str_add z description) (\<lambda>line.
     print [line])))))))))"

fun show_hits :: "json list \<Rightarrow> ('w, unit) py" where
  "show_hits [] = py_return ()"
| "show_hits (hit # hits) = py_bind (show_hit hit) (\<lambda>_. show_hits hits)"

section \<open>Vocabulary for stating the properties\<close>

text \<open>Reading a chain of keys, as \<^verbatim>\<open>v[k1][k2][k3]\<close> does.\<close>

fun path :: "json \<Rightarrow> string list \<Rightarrow> py_error + json" where
  "path v [] = Inr v"
| "path v (k # ks) = (case subscript v k of Inl e \<Rightarrow> Inl e | Inr x \<Rightarrow> path x ks)"

text \<open>
  What a cell makes of a reply when it reads the keys \<open>ks\<close> of its decoded body: the value
  found, or the exception raised on the way.
\<close>

fun read_reply :: "reply \<Rightarrow> string list \<Rightarrow> py_error + json" where
  "read_reply ConnectionFailed ks = Inl ConnectionError"
| "read_reply (Response NotJson) ks = Inl JSONDecodeError"
| "read_reply (Response (Json j)) ks = path j ks"

abbreviation logintoken_path :: "string list" where
  "logintoken_path \<equiv> [''query'', ''tokens'', ''logintoken'']"

abbreviation result_path :: "string list" where
  "result_path \<equiv> [''login'', ''result'']"

abbreviation csrftoken_path :: "string list" where
  "csrftoken_path \<equiv> [''query'', ''tokens'', ''csrftoken'']"

text \<open>The four outbound calls, by the names the specification gives them.\<close>

definition login_token_request :: "nat \<Rightarrow> request" where
  "login_token_request s =
     \<lparr>via = s, verb = GET, url = API_URI,
      params = [(''action'', JStr ''query''), (''format'', JStr ''json''),
                (''meta'', JStr ''tokens''), (''type'', JStr ''login'')]\<rparr>"

definition login_request :: "nat \<Rightarrow> string \<Rightarrow> string \<Rightarrow> json \<Rightarrow> request" where
  "login_request s lgname lgpassword t =
     \<lparr>via = s, verb = POST, url = API_URI,
      params = [(''action'', JStr ''login''), (''lgname'', JStr lgname),
                (''lgpassword'', JStr lgpassword), (''lgtoken'', t),
                (''format'', JStr ''json'')]\<rparr>"

definition edit_token_request :: "nat \<Rightarrow> request" where
  "edit_token_request s =
     \<lparr>via = s, verb = GET, url = API_URI,
      params = [(''action'', JStr ''query''), (''format'', JStr ''json''),
                (''meta'', JStr ''tokens'')]\<rparr>"

definition commit_request :: "nat \<Rightarrow> intent \<Rightarrow> json \<Rightarrow> request" where
  "commit_request s i t =
     \<lparr>via = s, verb = POST, url = API_URI,
      params = [(''action'', JStr ''wbcreateclaim''), (''entity'', JStr (entity i)),
                (''format'', JStr ''json''), (''property'', JStr (property i)),
                (''snaktype'', JStr (snaktype i)), (''summary'', JStr (summary i)),
                (''token'', t), (''value'', JStr (val i))]\<rparr>"

definition action :: "request \<Rightarrow> json option" where
  "action q = map_of (params q) ''action''"

definition is_login :: "request \<Rightarrow> bool" where
  "is_login q = (action q = Some (JStr ''login''))"

definition is_commit :: "request \<Rightarrow> bool" where
  "is_commit q = (action q = Some (JStr ''wbcreateclaim''))"

text \<open>The keys a cell reads from the reply to the request it has sent.\<close>

definition expected_path :: "request \<Rightarrow> string list" where
  "expected_path q =
     (if is_login q then result_path
      else if is_commit q then []
      else if map_of (params q) ''type'' = Some (JStr ''login'') then logintoken_path
      else csrftoken_path)"

text \<open>The calls issued and the lines printed between two states of one run.\<close>

definition exchanged :: "'w nb \<Rightarrow> 'w nb \<Rightarrow> (request \<times> reply) list" where
  "exchanged st st' = drop (length (exchanges st)) (exchanges st')"

definition issued :: "'w nb \<Rightarrow> 'w nb \<Rightarrow> request list" where
  "issued st st' = map fst (exchanged st st')"

definition printed :: "'w nb \<Rightarrow> 'w nb \<Rightarrow> json list list" where
  "printed st st' = drop (length (stdout st)) (stdout st')"

text \<open>
  A session counts as authenticated once a login request made through it has been answered
  with the result \<^verbatim>\<open>Success\<close> (the answer recorded in the notebook's output).
\<close>

definition authenticated :: "(request \<times> reply) list \<Rightarrow> nat \<Rightarrow> bool" where
  "authenticated xs s =
     list_ex (\<lambda>x. via (fst x) = s \<and> is_login (fst x)
                 \<and> read_reply (snd x) result_path = Inr (JStr ''Success'')) xs"

text \<open>
  The two shapes the specification gives for the answer to the write: a confirmation
  carrying the new statement's identifier and the revision id (as in the recorded output
  of cell 23), and an error object.
\<close>

definition is_confirmation :: "json \<Rightarrow> bool" where
  "is_confirmation j =
     (\<not> isl (path j [''claim'', ''id'']) \<and> \<not> isl (path j [''pageinfo'', ''lastrevid'']))"

definition is_error_object :: "json \<Rightarrow> bool" where
  "is_error_object j = (\<not> isl (subscript j ''error''))"

text \<open>
  A search hit as the search action returns it: a dict with a string \<^verbatim>\<open>id\<close>, and with
  \<^verbatim>\<open>label\<close> and \<^verbatim>\<open>description\<close> either absent or strings.
\<close>

definition str_or_absent :: "json option \<Rightarrow> bool" where
  "str_or_absent x = (case x of None \<Rightarrow> True | Some (JStr _) \<Rightarrow> True | Some _ \<Rightarrow> False)"

definition search_hit :: "json \<Rightarrow> bool" where
  "search_hit h =
     (case h of
        JObj kvs \<Rightarrow>
          (case map_of kvs ''id'' of Some (JStr _) \<Rightarrow> True | _ \<Rightarrow> False)
          \<and> str_or_absent (map_of kvs ''label'')
          \<and> str_or_absent (map_of kvs ''description'')
      | _ \<Rightarrow> False)"

definition str_field :: "json \<Rightarrow> string \<Rightarrow> string option" where
  "str_field h k =
     (case h of
        JObj kvs \<Rightarrow> (case map_of kvs k of Some (JStr s) \<Rightarrow> Some s | _ \<Rightarrow> None)
      | _ \<Rightarrow> None)"

text \<open>The line expected for a hit: a missing label is empty, a missing description is left out.\<close>

definition hit_text :: "json \<Rightarrow> string" where
  "hit_text h =
     (case str_field h ''id'' of None \<Rightarrow> [] | Some i \<Rightarrow> i) @ '': ''
       @ (case str_field h ''label'' of None \<Rightarrow> [] | Some l \<Rightarrow> l) @ '' ''
       @ (case str_field h ''description'' of None \<Rightarrow> [] | Some d \<Rightarrow> ''('' @ d @ '')'')"

subsection \<open>Test doubles\<close>

text \<open>A remote that answers from a fixed sequence of replies, whatever it is asked.\<close>

fun canned :: "reply list remote" where
  "canned [] q = (ConnectionFailed, [])"
| "canned (r # rs) q = (r, rs)"

text \<open>
  A remote that applies every write it receives: it keeps the list of accepted write
  requests and numbers the revisions.
\<close>

definition ledger :: "request list remote" where
  "ledger w q =
     (if is_commit q
      then (Response (Json (JObj [(''pageinfo'', JObj [(''lastrevid'', JNum (int (length w) + 1))]),
                                  (''success'', JNum 1),
                                  (''claim'', JObj [(''id'', JNum (int (length w) + 1))])])),
            w @ [q])
      else (Response (Json (JObj [])), w))"

definition token_reply :: "string \<Rightarrow> string \<Rightarrow> reply" where
  "token_reply k t = Response (Json (JObj [(''query'', JObj [(''tokens'', JObj [(k, JStr t)])])]))"

definition login_reply :: "string \<Rightarrow> reply" where
  "login_reply res = Response (Json (JObj [(''login'', JObj [(''result'', JStr res)])]))"

text \<open>
  Mocked reply sequences: the answers of the recorded run; a refused login followed by the
  token the service hands to anonymous clients and its refusal of the write; and a run
  whose write is answered by an empty object.
\<close>

definition anonymous_token :: string where
  "anonymous_token = ''+'' @ [CHR 0x5C]"

definition confirmation_reply :: reply where
  "confirmation_reply =
     Response (Json (JObj [(''pageinfo'', JObj [(''lastrevid'', JNum 740694614)]),
                           (''success'', JNum 1),
                           (''claim'', JObj [(''type'', JStr ''statement''),
                                             (''id'', JStr ''Q15397819$98266984''),
                                             (''rank'', JStr ''normal'')])]))"

definition error_reply :: reply where
  "error_reply =
     Response (Json (JObj [(''error'', JObj [(''code'', JStr ''badtoken'')])]))"

definition recorded_mock :: "reply list" where
  "recorded_mock =
     [token_reply ''logintoken'' ''T1'', login_reply ''Success'',
      token_reply ''csrftoken'' ''T2'', confirmation_reply]"

definition failed_login_mock :: "reply list" where
  "failed_login_mock =
     [token_reply ''logintoken'' ''T1'', login_reply ''Failed'',
      token_reply ''csrftoken'' anonymous_token, error_reply]"

definition empty_answer_mock :: "reply list" where
  "empty_answer_mock =
     [token_reply ''logintoken'' ''T1'', login_reply ''Success'',
      token_reply ''csrftoken'' ''T2'', Response (Json (JObj []))]"

definition lost_answer_mock :: "reply list" where
  "lost_answer_mock =
     [token_reply ''logintoken'' ''T1'', login_reply ''Success'',
      token_reply ''csrftoken'' ''T2'', ConnectionFailed]"

definition zurich_hits :: "json list" where
  "zurich_hits =
     [JObj [(''id'', JStr ''Q72''), (''label'', JStr ''Zurich''),
            (''description'', JStr ''capital of the canton'')],
      JObj [(''id'', JStr ''Q660732''), (''label'', JStr ''Zurich District'')],
      JObj [(''id'', JStr ''Q19240447'')]]"

text \<open>A kernel in which nothing has run yet.\<close>

definition fresh :: "'w \<Rightarrow> 'w nb" where
  "fresh w =
     \<lparr>world = w, exchanges = [], stdout = [], next_session = 0,
      session = None, response = None, token = None\<rparr>"

text \<open>The value the variable \<^verbatim>\<open>response\<close> holds after a call that got the reply \<open>r\<close>.\<close>

definition keep :: "reply \<Rightarrow> body option \<Rightarrow> body option" where
  "keep r old = (case r of ConnectionFailed \<Rightarrow> old | Response b \<Rightarrow> Some b)"

section \<open>Symbolic execution of the cells\<close>

lemmas prim_defs = py_bind_def py_return_def py_raise_def Session_def store_session_def
  load_session_def store_response_def load_response_def store_token_def load_token_def
  send_def json_of_def item_def print_def

lemma cell17_eq:
  "cell17 srv st =
     (case srv (world st) (login_token_request (next_session st)) of
        (r, w') \<Rightarrow>
          (case read_reply r [''query'', ''tokens'', ''logintoken''] of
             Inl e \<Rightarrow>
               (Inl e,
                st\<lparr>world := w',
                   exchanges := exchanges st @ [(login_token_request (next_session st), r)],
                   next_session := Suc (next_session st), session := Some (next_session st),
                   response := keep r (response st)\<rparr>)
           | Inr t \<Rightarrow>
               (Inr (),
                st\<lparr>world := w',
                   exchanges := exchanges st @ [(login_token_request (next_session st), r)],
                   stdout := stdout st @ [[JStr ''retrieved login token:'', t]],
                   next_session := Suc (next_session st), session := Some (next_session st),
                   response := keep r (response st), token := Some t\<rparr>)))"
  by (auto simp add: cell17_def prim_defs login_token_request_def Let_def keep_def
           split: prod.splits reply.splits body.splits sum.splits)

lemma cell19_eq:
  "cell19 srv lgname lgpassword st =
     (case session st of
        None \<Rightarrow> (Inl (NameError ''session''), st)
      | Some s \<Rightarrow>
     (case token st of
        None \<Rightarrow> (Inl (NameError ''token''), st)
      | Some t \<Rightarrow>
     (case srv (world st) (login_request s lgname lgpassword t) of
        (r, w') \<Rightarrow>
          (case read_reply r [''login'', ''result''] of
             Inl e \<Rightarrow>
               (Inl e,
                st\<lparr>world := w',
                   exchanges := exchanges st @ [(login_request s lgname lgpassword t, r)],
                   response := keep r (response st)\<rparr>)
           | Inr res \<Rightarrow>
               (Inr (),
                st\<lparr>world := w',
                   exchanges := exchanges st @ [(login_request s lgname lgpassword t, r)],
                   stdout := stdout st @ [[JStr ''login:'', res]],
                   response := keep r (response st)\<rparr>)))))"
  by (auto simp add: cell19_def prim_defs login_request_def Let_def keep_def
           split: prod.splits reply.splits body.splits sum.splits option.splits)

lemma cell21_eq:
  "cell21 srv st =
     (case session st of
        None \<Rightarrow> (Inl (NameError ''session''), st)
      | Some s \<Rightarrow>
     (case srv (world st) (edit_token_request s) of
        (r, w') \<Rightarrow>
          (case read_reply r [''query'', ''tokens'', ''csrftoken''] of
             Inl e \<Rightarrow>
               (Inl e,
                st\<lparr>world := w',
                   exchanges := exchanges st @ [(edit_token_request s, r)],
                   response := keep r (response st)\<rparr>)
           | Inr t \<Rightarrow>
               (Inr (),
                st\<lparr>world := w',
                   exchanges := exchanges st @ [(edit_token_request s, r)],
                   stdout := stdout st @ [[JStr ''working token:'', t]],
                   response := keep r (response st), token := Some t\<rparr>))))"
  by (auto simp add: cell21_def prim_defs edit_token_request_def Let_def keep_def
           split: prod.splits reply.splits body.splits sum.splits option.splits)

lemma cell23_eq:
  "cell23 srv (entity i) (property i) (snaktype i) (summary i) (val i) st =
     (case session st of
        None \<Rightarrow> (Inl (NameError ''session''), st)
      | Some s \<Rightarrow>
     (case token st of
        None \<Rightarrow> (Inl (NameError ''token''), st)
      | Some t \<Rightarrow>
     (case srv (world st) (commit_request s i t) of
        (r, w') \<Rightarrow>
          (case read_reply r [] of
             Inl e \<Rightarrow>
               (Inl e,
                st\<lparr>world := w',
                   exchanges := exchanges st @ [(commit_request s i t, r)],
                   response := keep r (response st)\<rparr>)
           | Inr j \<Rightarrow>
               (Inr (),
                st\<lparr>world := w',
                   exchanges := exchanges st @ [(commit_request s i t, r)],
                   stdout := stdout st @ [[j]],
                   response := keep r (response st)\<rparr>)))))"
  by (auto simp add: cell23_def prim_defs commit_request_def Let_def keep_def
           split: prod.splits reply.splits body.splits sum.splits option.splits)


lemma run_cases [case_names halt1 halt2 halt3 halt4 completed]:
  obtains
    (halt1) r1 w1 e where
      "srv (world st) (login_token_request (next_session st)) = (r1, w1)"
      "read_reply r1 logintoken_path = Inl e"
      "fst (run_cells (write_procedure srv n p i) st) = Inl e"
      "exchanges (snd (run_cells (write_procedure srv n p i) st)) =
         exchanges st @ [(login_token_request (next_session st), r1)]"
      "stdout (snd (run_cells (write_procedure srv n p i) st)) = stdout st"
  | (halt2) r1 w1 t1 r2 w2 e where
      "srv (world st) (login_token_request (next_session st)) = (r1, w1)"
      "read_reply r1 logintoken_path = Inr t1"
      "srv w1 (login_request (next_session st) n p t1) = (r2, w2)"
      "read_reply r2 result_path = Inl e"
      "fst (run_cells (write_procedure srv n p i) st) = Inl e"
      "exchanges (snd (run_cells (write_procedure srv n p i) st)) =
         exchanges st @ [(login_token_request (next_session st), r1),
                         (login_request (next_session st) n p t1, r2)]"
      "stdout (snd (run_cells (write_procedure srv n p i) st)) =
         stdout st @ [[JStr ''retrieved login token:'', t1]]"
  | (halt3) r1 w1 t1 r2 w2 res r3 w3 e where
      "srv (world st) (login_token_request (next_session st)) = (r1, w1)"
      "read_reply r1 logintoken_path = Inr t1"
      "srv w1 (login_request (next_session st) n p t1) = (r2, w2)"
      "read_reply r2 result_path = Inr res"
      "srv w2 (edit_token_request (next_session st)) = (r3, w3)"
      "read_reply r3 csrftoken_path = Inl e"
      "fst (run_cells (write_procedure srv n p i) st) = Inl e"
      "exchanges (snd (run_cells (write_procedure srv n p i) st)) =
         exchanges st @ [(login_token_request (next_session st), r1),
                         (login_request (next_session st) n p t1, r2),
                         (edit_token_request (next_session st), r3)]"
      "stdout (snd (run_cells (write_procedure srv n p i) st)) =
         stdout st @ [[JStr ''retrieved login token:'', t1], [JStr ''login:'', res]]"
  | (halt4) r1 w1 t1 r2 w2 res r3 w3 t2 r4 w4 e where
      "srv (world st) (login_token_request (next_session st)) = (r1, w1)"
      "read_reply r1 logintoken_path = Inr t1"
      "srv w1 (login_request (next_session st) n p t1) = (r2, w2)"
      "read_reply r2 result_path = Inr res"
      "srv w2 (edit_token_request (next_session st)) = (r3, w3)"
      "read_reply r3 csrftoken_path = Inr t2"
      "srv w3 (commit_request (next_session st) i t2) = (r4, w4)"
      "read_reply r4 [] = Inl e"
      "fst (run_cells (write_procedure srv n p i) st) = Inl e"
      "exchanges (snd (run_cells (write_procedure srv n p i) st)) =
         exchanges st @ [(login_token_request (next_session st), r1),
                         (login_request (next_session st) n p t1, r2),
                         (edit_token_request (next_session st), r3),
                         (commit_request (next_session st) i t2, r4)]"
      "stdout (snd (run_cells (write_procedure srv n p i) st)) =
         stdout st @ [[JStr ''retrieved login token:'', t1], [JStr ''login:'', res],
                      [JStr ''working token:'', t2]]"
      "token (snd (run_cells (write_procedure srv n p i) st)) = Some t2"
  | (completed) r1 w1 t1 r2 w2 res r3 w3 t2 r4 w4 j where
      "srv (world st) (login_token_request (next_session st)) = (r1, w1)"
      "read_reply r1 logintoken_path = Inr t1"
      "srv w1 (login_request (next_session st) n p t1) = (r2, w2)"
      "read_reply r2 result_path = Inr res"
      "srv w2 (edit_token_request (next_session st)) = (r3, w3)"
      "read_reply r3 csrftoken_path = Inr t2"
      "srv w3 (commit_request (next_session st) i t2) = (r4, w4)"
      "read_reply r4 [] = Inr j"
      "fst (run_cells (write_procedure srv n p i) st) = Inr ()"
      "exchanges (snd (run_cells (write_procedure srv n p i) st)) =
         exchanges st @ [(login_token_request (next_session st), r1),
                         (login_request (next_session st) n p t1, r2),
                         (edit_token_request (next_session st), r3),
                         (commit_request (next_session st) i t2, r4)]"
      "stdout (snd (run_cells (write_procedure srv n p i) st)) =
         stdout st @ [[JStr ''retrieved login token:'', t1], [JStr ''login:'', res],
                      [JStr ''working token:'', t2], [j]]"
      "token (snd (run_cells (write_procedure srv n p i) st)) = Some t2"
proof -
  let ?s = "next_session st"
  obtain r1 w1 where a1: "srv (world st) (login_token_request ?s) = (r1, w1)"
    by force
  show thesis
  proof (cases "read_reply r1 logintoken_path")
    case (Inl e)
    show thesis
      by (rule halt1 [OF a1 Inl])
         (simp_all add: write_procedure_def authenticate_def cell17_eq a1 Inl)
  next
    case t1: (Inr t1)
    obtain r2 w2 where a2: "srv w1 (login_request ?s n p t1) = (r2, w2)"
      by force
    show thesis
    proof (cases "read_reply r2 result_path")
      case (Inl e)
      show thesis
        by (rule halt2 [OF a1 t1 a2 Inl])
           (simp_all add: write_procedure_def authenticate_def cell17_eq cell19_eq a1 t1 a2 Inl)
    next
      case res: (Inr res)
      obtain r3 w3 where a3: "srv w2 (edit_token_request ?s) = (r3, w3)"
        by force
      show thesis
      proof (cases "read_reply r3 csrftoken_path")
        case (Inl e)
        show thesis
          by (rule halt3 [OF a1 t1 a2 res a3 Inl])
             (simp_all add: write_procedure_def authenticate_def cell17_eq cell19_eq cell21_eq
                a1 t1 a2 res a3 Inl)
      next
        case t2: (Inr t2)
        obtain r4 w4 where a4: "srv w3 (commit_request ?s i t2) = (r4, w4)"
          by force
        show thesis
        proof (cases "read_reply r4 []")
          case (Inl e)
          show thesis
            by (rule halt4 [OF a1 t1 a2 res a3 t2 a4 Inl])
               (simp_all add: write_procedure_def authenticate_def cell17_eq cell19_eq cell21_eq
                  cell23_eq a1 t1 a2 res a3 t2 a4 Inl)
        next
          case (Inr j)
          show thesis
            by (rule completed [OF a1 t1 a2 res a3 t2 a4 Inr])
               (simp_all add: write_procedure_def authenticate_def cell17_eq cell19_eq cell21_eq
                  cell23_eq a1 t1 a2 res a3 t2 a4 Inr)
        qed
      qed
    qed
  qed
qed

subsection \<open>Facts about the four calls and about mocked runs\<close>

lemma kind_simps [simp]:
  "is_commit (commit_request s i t)"
  "\<not> is_commit (login_token_request s)"
  "\<not> is_commit (login_request s n p t)"
  "\<not> is_commit (edit_token_request s)"
  "is_login (login_request s n p t)"
  "\<not> is_login (login_token_request s)"
  "\<not> is_login (commit_request s i t)"
  "\<not> is_login (edit_token_request s)"
  by (simp_all add: is_commit_def is_login_def action_def
        login_token_request_def login_request_def edit_token_request_def commit_request_def)

lemma expected_path_simps [simp]:
  "expected_path (login_token_request s) = logintoken_path"
  "expected_path (login_request s n p t) = result_path"
  "expected_path (edit_token_request s) = csrftoken_path"
  "expected_path (commit_request s i t) = []"
  by (simp_all add: expected_path_def is_commit_def is_login_def action_def
        login_token_request_def login_request_def edit_token_request_def commit_request_def)

lemma commit_request_token [simp]:
  "map_of (params (commit_request s i t)) ''token'' = Some t"
  by (simp add: commit_request_def)

lemma authenticate_ok:
  assumes "srv (world st) (login_token_request (next_session st)) = (r1, w1)"
    and "read_reply r1 logintoken_path = Inr t1"
    and "srv w1 (login_request (next_session st) n p t1) = (r2, w2)"
    and "read_reply r2 result_path = Inr res"
    and "srv w2 (edit_token_request (next_session st)) = (r3, w3)"
    and "read_reply r3 csrftoken_path = Inr t2"
  shows "run_cells (authenticate srv n p) st =
     (Inr (),
      st\<lparr>world := w3,
         exchanges := exchanges st @ [(login_token_request (next_session st), r1),
                         (login_request (next_session st) n p t1, r2),
                         (edit_token_request (next_session st), r3)],
         stdout := stdout st @ [[JStr ''retrieved login token:'', t1], [JStr ''login:'', res],
                      [JStr ''working token:'', t2]],
         next_session := Suc (next_session st), session := Some (next_session st),
         response := keep r3 (keep r2 (keep r1 (response st))), token := Some t2\<rparr>)"
  using assms by (simp add: authenticate_def cell17_eq cell19_eq cell21_eq)

lemma run_cells_append:
  "run_cells (cs @ ds) st =
     (case run_cells cs st of (Inl e, st') \<Rightarrow> (Inl e, st') | (Inr _, st') \<Rightarrow> run_cells ds st')"
  by (induction cs arbitrary: st) (auto split: prod.splits sum.splits)

lemma read_mock [simp]:
  "read_reply (token_reply k t) [''query'', ''tokens'', k] = Inr (JStr t)"
  "read_reply (login_reply res) result_path = Inr (JStr res)"
  by (simp_all add: token_reply_def login_reply_def subscript_def)

lemma canned_run:
  assumes "read_reply a logintoken_path = Inr t1"
    and "read_reply b result_path = Inr res"
    and "read_reply c csrftoken_path = Inr t2"
  shows "run_cells (write_procedure canned n p i) (fresh (a # b # c # d # rest)) =
     (case read_reply d [] of
        Inl e \<Rightarrow>
          (Inl e,
           \<lparr>world = rest,
            exchanges = [(login_token_request 0, a), (login_request 0 n p t1, b),
                         (edit_token_request 0, c), (commit_request 0 i t2, d)],
            stdout = [[JStr ''retrieved login token:'', t1], [JStr ''login:'', res],
                      [JStr ''working token:'', t2]],
            next_session = Suc 0, session = Some 0,
            response = keep d (keep c (keep b (keep a None))), token = Some t2\<rparr>)
      | Inr j \<Rightarrow>
          (Inr (),
           \<lparr>world = rest,
            exchanges = [(login_token_request 0, a), (login_request 0 n p t1, b),
                         (edit_token_request 0, c), (commit_request 0 i t2, d)],
            stdout = [[JStr ''retrieved login token:'', t1], [JStr ''login:'', res],
                      [JStr ''working token:'', t2], [j]],
            next_session = Suc 0, session = Some 0,
            response = keep d (keep c (keep b (keep a None))), token = Some t2\<rparr>))"
proof -
  have "run_cells (authenticate canned n p) (fresh (a # b # c # d # rest)) =
     (Inr (),
      \<lparr>world = d # rest,
       exchanges = [(login_token_request 0, a), (login_request 0 n p t1, b),
                    (edit_token_request 0, c)],
       stdout = [[JStr ''retrieved login token:'', t1], [JStr ''login:'', res],
                 [JStr ''working token:'', t2]],
       next_session = Suc 0, session = Some 0,
       response = keep c (keep b (keep a None)), token = Some t2\<rparr>)"
    by (subst authenticate_ok [where ?r1.0 = a and ?w1.0 = "b # c # d # rest" and ?t1.0 = t1
          and ?r2.0 = b and ?w2.0 = "c # d # rest" and res = res and ?r3.0 = c
          and ?w3.0 = "d # rest" and ?t2.0 = t2])
       (simp_all add: fresh_def assms)
  then show ?thesis
    by (simp add: write_procedure_def run_cells_append cell23_eq split: sum.splits)
qed

lemma fresh_simps [simp]:
  "world (fresh w) = w" "exchanges (fresh w) = []" "stdout (fresh w) = []"
  "next_session (fresh w) = 0" "session (fresh w) = None" "token (fresh w) = None"
  by (simp_all add: fresh_def)

lemma via_simps [simp]:
  "via (login_token_request s) = s"
  "via (login_request s n p t) = s"
  "via (edit_token_request s) = s"
  "via (commit_request s i t) = s"
  by (simp_all add: login_token_request_def login_request_def edit_token_request_def
        commit_request_def)

lemma failed_login_run:
  "run_cells (notebook canned) (fresh failed_login_mock) =
     (Inr (),
      \<lparr>world = [],
       exchanges = [(login_token_request 0, token_reply ''logintoken'' ''T1''),
                    (login_request 0 LGNAME LGPASSWORD (JStr ''T1''), login_reply ''Failed''),
                    (edit_token_request 0, token_reply ''csrftoken'' anonymous_token),
                    (commit_request 0 sandbox_claim (JStr anonymous_token), error_reply)],
       stdout = [[JStr ''retrieved login token:'', JStr ''T1''],
                 [JStr ''login:'', JStr ''Failed''],
                 [JStr ''working token:'', JStr anonymous_token],
                 [JObj [(''error'', JObj [(''code'', JStr ''badtoken'')])]]],
       next_session = Suc 0, session = Some 0,
       response = Some (Json (JObj [(''error'', JObj [(''code'', JStr ''badtoken'')])])),
       token = Some (JStr anonymous_token)\<rparr>)"
  by (simp add: notebook_def failed_login_mock_def error_reply_def keep_def
        canned_run [where ?t1.0 = "JStr ''T1''" and res = "JStr ''Failed''"
          and ?t2.0 = "JStr anonymous_token"])

lemma empty_answer_run:
  "run_cells (notebook canned) (fresh empty_answer_mock) =
     (Inr (),
      \<lparr>world = [],
       exchanges = [(login_token_request 0, token_reply ''logintoken'' ''T1''),
                    (login_request 0 LGNAME LGPASSWORD (JStr ''T1''), login_reply ''Success''),
                    (edit_token_request 0, token_reply ''csrftoken'' ''T2''),
                    (commit_request 0 sandbox_claim (JStr ''T2''), Response (Json (JObj [])))],
       stdout = [[JStr ''retrieved login token:'', JStr ''T1''],
                 [JStr ''login:'', JStr ''Success''],
                 [JStr ''working token:'', JStr ''T2''],
                 [JObj []]],
       next_session = Suc 0, session = Some 0,
       response = Some (Json (JObj [])),
       token = Some (JStr ''T2'')\<rparr>)"
  by (simp add: notebook_def empty_answer_mock_def keep_def
        canned_run [where ?t1.0 = "JStr ''T1''" and res = "JStr ''Success''"
          and ?t2.0 = "JStr ''T2''"])

lemma show_hit_ok:
  assumes "search_hit h"
  shows "show_hit h st = (Inr (), st\<lparr>stdout := stdout st @ [[JStr (hit_text h)]]\<rparr>)"
  using assms
  by (auto simp add: search_hit_def str_or_absent_def show_hit_def hit_text_def str_field_def
        item_def subscript_def has_key_def str_add_def py_bind_def py_return_def py_raise_def
        print_def
      split: json.splits option.splits)

lemma recorded_run:
  "run_cells (notebook canned) (fresh recorded_mock) =
     (Inr (),
      \<lparr>world = [],
       exchanges = [(login_token_request 0, token_reply ''logintoken'' ''T1''),
                    (login_request 0 LGNAME LGPASSWORD (JStr ''T1''), login_reply ''Success''),
                    (edit_token_request 0, token_reply ''csrftoken'' ''T2''),
                    (commit_request 0 sandbox_claim (JStr ''T2''), confirmation_reply)],
       stdout = [[JStr ''retrieved login token:'', JStr ''T1''],
                 [JStr ''login:'', JStr ''Success''],
                 [JStr ''working token:'', JStr ''T2''],
                 [JObj [(''pageinfo'', JObj [(''lastrevid'', JNum 740694614)]),
                        (''success'', JNum 1),
                        (''claim'', JObj [(''type'', JStr ''statement''),
                                          (''id'', JStr ''Q15397819$98266984''),
                                          (''rank'', JStr ''normal'')])]]],
       next_session = Suc 0, session = Some 0,
       response = Some (Json (JObj [(''pageinfo'', JObj [(''lastrevid'', JNum 740694614)]),
                        (''success'', JNum 1),
                        (''claim'', JObj [(''type'', JStr ''statement''),
                                          (''id'', JStr ''Q15397819$98266984''),
                                          (''rank'', JStr ''normal'')])])),
       token = Some (JStr ''T2'')\<rparr>)"
  by (simp add: notebook_def recorded_mock_def keep_def confirmation_reply_def
        canned_run [where ?t1.0 = "JStr ''T1''" and res = "JStr ''Success''"
          and ?t2.0 = "JStr ''T2''"])

lemma lost_answer_run:
  "run_cells (notebook canned) (fresh lost_answer_mock) =
     (Inl ConnectionError,
      \<lparr>world = [],
       exchanges = [(login_token_request 0, token_reply ''logintoken'' ''T1''),
                    (login_request 0 LGNAME LGPASSWORD (JStr ''T1''), login_reply ''Success''),
                    (edit_token_request 0, token_reply ''csrftoken'' ''T2''),
                    (commit_request 0 sandbox_claim (JStr ''T2''), ConnectionFailed)],
       stdout = [[JStr ''retrieved login token:'', JStr ''T1''],
                 [JStr ''login:'', JStr ''Success''],
                 [JStr ''working token:'', JStr ''T2'']],
       next_session = Suc 0, session = Some 0,
       response = Some (Json (JObj [(''query'', JObj [(''tokens'',
                     JObj [(''csrftoken'', JStr ''T2'')])])])),
       token = Some (JStr ''T2'')\<rparr>)"
  by (simp add: notebook_def lost_answer_mock_def keep_def token_reply_def login_reply_def
        canned_run [where ?t1.0 = "JStr ''T1''" and res = "JStr ''Success''"
          and ?t2.0 = "JStr ''T2''"] subscript_def)

section \<open>The handshake\<close>

text \<open>
  C1. Whenever the remote service answers the three authentication requests successfully
  (a login token, the login result \<^verbatim>\<open>Success\<close>, an edit token), the three handshake
  cells complete without an exception, they issue exactly three outbound calls, in the
  order request login token, authenticate, request edit token, all through the session
  created at the start, and they end with the variable \<^verbatim>\<open>token\<close> holding the edit
  token read from the third reply.
\<close>

theorem handshake_three_calls:
  assumes "srv (world st) (login_token_request (next_session st)) = (r1, w1)"
    and "read_reply r1 logintoken_path = Inr t1"
    and "srv w1 (login_request (next_session st) n p t1) = (r2, w2)"
    and "read_reply r2 result_path = Inr (JStr ''Success'')"
    and "srv w2 (edit_token_request (next_session st)) = (r3, w3)"
    and "read_reply r3 csrftoken_path = Inr t2"
  shows "fst (run_cells (authenticate srv n p) st) = Inr ()
     \<and> issued st (snd (run_cells (authenticate srv n p) st)) =
         [login_token_request (next_session st),
          login_request (next_session st) n p t1,
          edit_token_request (next_session st)]
     \<and> token (snd (run_cells (authenticate srv n p) st)) = Some t2
     \<and> session (snd (run_cells (authenticate srv n p) st)) = Some (next_session st)"
  by (simp add: authenticate_ok [OF assms] issued_def exchanged_def)

text \<open>The mocked replies \<^verbatim>\<open>T1\<close>, \<^verbatim>\<open>Success\<close>, \<^verbatim>\<open>T2\<close> of the specification.\<close>

theorem handshake_three_calls_witness:
  "canned (world (fresh recorded_mock)) (login_token_request (next_session (fresh recorded_mock)))
     = (token_reply ''logintoken'' ''T1'',
        [login_reply ''Success'', token_reply ''csrftoken'' ''T2'', confirmation_reply])
   \<and> read_reply (token_reply ''logintoken'' ''T1'') logintoken_path = Inr (JStr ''T1'')
   \<and> canned [login_reply ''Success'', token_reply ''csrftoken'' ''T2'', confirmation_reply]
        (login_request (next_session (fresh recorded_mock)) LGNAME LGPASSWORD (JStr ''T1''))
     = (login_reply ''Success'', [token_reply ''csrftoken'' ''T2'', confirmation_reply])
   \<and> read_reply (login_reply ''Success'') result_path = Inr (JStr ''Success'')
   \<and> canned [token_reply ''csrftoken'' ''T2'', confirmation_reply]
        (edit_token_request (next_session (fresh recorded_mock)))
     = (token_reply ''csrftoken'' ''T2'', [confirmation_reply])
   \<and> read_reply (token_reply ''csrftoken'' ''T2'') csrftoken_path = Inr (JStr ''T2'')
   \<and> fst (run_cells (authenticate canned LGNAME LGPASSWORD) (fresh recorded_mock)) = Inr ()
   \<and> issued (fresh recorded_mock)
        (snd (run_cells (authenticate canned LGNAME LGPASSWORD) (fresh recorded_mock))) =
         [login_token_request 0, login_request 0 LGNAME LGPASSWORD (JStr ''T1''),
          edit_token_request 0]
   \<and> token (snd (run_cells (authenticate canned LGNAME LGPASSWORD) (fresh recorded_mock)))
       = Some (JStr ''T2'')"
proof -
  have h1: "canned (world (fresh recorded_mock))
       (login_token_request (next_session (fresh recorded_mock)))
     = (token_reply ''logintoken'' ''T1'',
        [login_reply ''Success'', token_reply ''csrftoken'' ''T2'', confirmation_reply])"
    by (simp add: recorded_mock_def)
  have h2: "read_reply (token_reply ''logintoken'' ''T1'') logintoken_path = Inr (JStr ''T1'')"
    by simp
  have h3: "canned [login_reply ''Success'', token_reply ''csrftoken'' ''T2'', confirmation_reply]
        (login_request (next_session (fresh recorded_mock)) LGNAME LGPASSWORD (JStr ''T1''))
     = (login_reply ''Success'', [token_reply ''csrftoken'' ''T2'', confirmation_reply])"
    by simp
  have h4: "read_reply (login_reply ''Success'') result_path = Inr (JStr ''Success'')"
    by simp
  have h5: "canned [token_reply ''csrftoken'' ''T2'', confirmation_reply]
        (edit_token_request (next_session (fresh recorded_mock)))
     = (token_reply ''csrftoken'' ''T2'', [confirmation_reply])"
    by simp
  have h6: "read_reply (token_reply ''csrftoken'' ''T2'') csrftoken_path = Inr (JStr ''T2'')"
    by simp
  show ?thesis
    using handshake_three_calls [OF h1 h2 h3 h4 h5 h6] h1 h2 h3 h4 h5 h6 by simp
qed

text \<open>
  C4. Whatever the credentials, whatever the remote service answers and whatever ran
  before: if a run of the procedure issues the authenticate (login) request at all, that
  request is the second call of the run, the first call of the run is the login-token
  request, its reply carried a login token, that token is the one sent along with the
  credentials, and both requests go through the same session.
\<close>

theorem login_after_token:
  assumes "(q, r) \<in> set (exchanged st (snd (run_cells (write_procedure srv n p i) st)))"
    and "is_login q"
  shows "\<exists>r1 t1 rest.
      exchanged st (snd (run_cells (write_procedure srv n p i) st)) =
        (login_token_request (next_session st), r1) # (q, r) # rest
      \<and> read_reply r1 logintoken_path = Inr t1
      \<and> q = login_request (next_session st) n p t1
      \<and> via q = via (login_token_request (next_session st))"
  using assms
  by (cases rule: run_cases [of srv st n p i])
     (auto simp add: exchanged_def)

theorem login_after_token_witness:
  "(login_request 0 LGNAME LGPASSWORD (JStr ''T1''), login_reply ''Success'')
      \<in> set (exchanged (fresh recorded_mock)
                (snd (run_cells (write_procedure canned LGNAME LGPASSWORD sandbox_claim)
                        (fresh recorded_mock))))
   \<and> is_login (login_request 0 LGNAME LGPASSWORD (JStr ''T1''))
   \<and> (\<exists>r1 t1 rest.
        exchanged (fresh recorded_mock)
          (snd (run_cells (write_procedure canned LGNAME LGPASSWORD sandbox_claim)
                  (fresh recorded_mock))) =
          (login_token_request (next_session (fresh recorded_mock)), r1)
            # (login_request 0 LGNAME LGPASSWORD (JStr ''T1''), login_reply ''Success'') # rest
        \<and> read_reply r1 logintoken_path = Inr t1
        \<and> login_request 0 LGNAME LGPASSWORD (JStr ''T1'') =
            login_request (next_session (fresh recorded_mock)) LGNAME LGPASSWORD t1
        \<and> via (login_request 0 LGNAME LGPASSWORD (JStr ''T1'')) =
            via (login_token_request (next_session (fresh recorded_mock))))"
proof -
  have run: "exchanged (fresh recorded_mock)
      (snd (run_cells (write_procedure canned LGNAME LGPASSWORD sandbox_claim)
              (fresh recorded_mock))) =
      [(login_token_request 0, token_reply ''logintoken'' ''T1''),
       (login_request 0 LGNAME LGPASSWORD (JStr ''T1''), login_reply ''Success''),
       (edit_token_request 0, token_reply ''csrftoken'' ''T2''),
       (commit_request 0 sandbox_claim (JStr ''T2''), confirmation_reply)]"
    by (simp add: recorded_mock_def exchanged_def confirmation_reply_def
          canned_run [where ?t1.0 = "JStr ''T1''" and res = "JStr ''Success''"
            and ?t2.0 = "JStr ''T2''"])
  have h1: "(login_request 0 LGNAME LGPASSWORD (JStr ''T1''), login_reply ''Success'')
      \<in> set (exchanged (fresh recorded_mock)
                (snd (run_cells (write_procedure canned LGNAME LGPASSWORD sandbox_claim)
                        (fresh recorded_mock))))"
    by (simp add: run)
  have h2: "is_login (login_request 0 LGNAME LGPASSWORD (JStr ''T1''))"
    by simp
  show ?thesis
    using login_after_token [OF h1 h2] h1 h2 by simp
qed

text \<open>
  C2, as stated, fails. The claim is that a run in which the login step returns a failure
  result halts right after that step, with no further outbound call. Against the mocked
  replies \<open>failed_login_mock\<close> the login reply carries the result \<^verbatim>\<open>Failed\<close>, yet the
  run completes without an exception and has issued the edit-token request and the
  commit request after the login.
\<close>

theorem login_failure_counterexample:
  "read_reply (login_reply ''Failed'') result_path = Inr (JStr ''Failed'')
   \<and> fst (run_cells (notebook canned) (fresh failed_login_mock)) = Inr ()
   \<and> issued (fresh failed_login_mock) (snd (run_cells (notebook canned) (fresh failed_login_mock)))
       = [login_token_request 0,
          login_request 0 LGNAME LGPASSWORD (JStr ''T1''),
          edit_token_request 0,
          commit_request 0 sandbox_claim (JStr anonymous_token)]"
  by (simp add: failed_login_run issued_def exchanged_def)

text \<open>
  C2, amended. Cell 19 only prints the login result. Once the login-token step has gone
  through, a login reply that carries a result (success or failure alike) is printed, the
  login request is sent exactly once in the run (no retry), and the run does not halt: its
  next call is the edit-token request, and when the reply to that carries an edit token
  the run goes on to send the commit request with it, so that the run has issued all four
  calls; when it carries none, the run ends there with the exception raised on it. The run
  halts right after the login step, with no further call and with the exception as its
  outcome, only when the login reply cannot be read: no connection, a body that is not
  JSON, or no \<^verbatim>\<open>login.result\<close> in it.
\<close>

theorem login_result_only_printed:
  assumes "srv (world st) (login_token_request (next_session st)) = (r1, w1)"
    and "read_reply r1 logintoken_path = Inr t1"
    and "srv w1 (login_request (next_session st) n p t1) = (r2, w2)"
    and "srv w2 (edit_token_request (next_session st)) = (r3, w3)"
  shows "case read_reply r2 result_path of
           Inr res \<Rightarrow>
             take 3 (issued st (snd (run_cells (write_procedure srv n p i) st))) =
               [login_token_request (next_session st),
                login_request (next_session st) n p t1,
                edit_token_request (next_session st)]
             \<and> take 2 (printed st (snd (run_cells (write_procedure srv n p i) st))) =
                 [[JStr ''retrieved login token:'', t1], [JStr ''login:'', res]]
             \<and> length (filter is_login
                  (issued st (snd (run_cells (write_procedure srv n p i) st)))) = 1
             \<and> (case read_reply r3 csrftoken_path of
                  Inr t2 \<Rightarrow>
                    issued st (snd (run_cells (write_procedure srv n p i) st)) =
                      [login_token_request (next_session st),
                       login_request (next_session st) n p t1,
                       edit_token_request (next_session st),
                       commit_request (next_session st) i t2]
                | Inl e \<Rightarrow>
                    fst (run_cells (write_procedure srv n p i) st) = Inl e
                    \<and> issued st (snd (run_cells (write_procedure srv n p i) st)) =
                        [login_token_request (next_session st),
                         login_request (next_session st) n p t1,
                         edit_token_request (next_session st)])
         | Inl e \<Rightarrow>
             fst (run_cells (write_procedure srv n p i) st) = Inl e
             \<and> issued st (snd (run_cells (write_procedure srv n p i) st)) =
                 [login_token_request (next_session st),
                  login_request (next_session st) n p t1]"
  using assms
  by (cases rule: run_cases [of srv st n p i])
     (auto simp add: issued_def exchanged_def printed_def)

text \<open>
  The amended statement at the refused login: the edit-token request and the commit
  request follow it.
\<close>

theorem login_result_only_printed_witness:
  "canned (world (fresh failed_login_mock))
       (login_token_request (next_session (fresh failed_login_mock)))
     = (token_reply ''logintoken'' ''T1'',
        [login_reply ''Failed'', token_reply ''csrftoken'' anonymous_token, error_reply])
   \<and> read_reply (token_reply ''logintoken'' ''T1'') logintoken_path = Inr (JStr ''T1'')
   \<and> canned [login_reply ''Failed'', token_reply ''csrftoken'' anonymous_token, error_reply]
        (login_request (next_session (fresh failed_login_mock)) LGNAME LGPASSWORD (JStr ''T1''))
     = (login_reply ''Failed'', [token_reply ''csrftoken'' anonymous_token, error_reply])
   \<and> canned [token_reply ''csrftoken'' anonymous_token, error_reply]
        (edit_token_request (next_session (fresh failed_login_mock)))
     = (token_reply ''csrftoken'' anonymous_token, [error_reply])
   \<and> read_reply (login_reply ''Failed'') result_path = Inr (JStr ''Failed'')
   \<and> read_reply (token_reply ''csrftoken'' anonymous_token) csrftoken_path
       = Inr (JStr anonymous_token)
   \<and> take 3 (issued (fresh failed_login_mock)
        (snd (run_cells (write_procedure canned LGNAME LGPASSWORD sandbox_claim)
                (fresh failed_login_mock))))
       = [login_token_request 0, login_request 0 LGNAME LGPASSWORD (JStr ''T1''),
          edit_token_request 0]
   \<and> take 2 (printed (fresh failed_login_mock)
        (snd (run_cells (write_procedure canned LGNAME LGPASSWORD sandbox_claim)
                (fresh failed_login_mock))))
       = [[JStr ''retrieved login token:'', JStr ''T1''], [JStr ''login:'', JStr ''Failed'']]
   \<and> length (filter is_login (issued (fresh failed_login_mock)
        (snd (run_cells (write_procedure canned LGNAME LGPASSWORD sandbox_claim)
                (fresh failed_login_mock))))) = 1
   \<and> issued (fresh failed_login_mock)
        (snd (run_cells (write_procedure canned LGNAME LGPASSWORD sandbox_claim)
                (fresh failed_login_mock)))
       = [login_token_request 0, login_request 0 LGNAME LGPASSWORD (JStr ''T1''),
          edit_token_request 0, commit_request 0 sandbox_claim (JStr anonymous_token)]"
proof -
  have h1: "canned (world (fresh failed_login_mock))
       (login_token_request (next_session (fresh failed_login_mock)))
     = (token_reply ''logintoken'' ''T1'',
        [login_reply ''Failed'', token_reply ''csrftoken'' anonymous_token, error_reply])"
    by (simp add: failed_login_mock_def)
  have h2: "read_reply (token_reply ''logintoken'' ''T1'') logintoken_path = Inr (JStr ''T1'')"
    by simp
  have h3: "canned [login_reply ''Failed'', token_reply ''csrftoken'' anonymous_token, error_reply]
        (login_request (next_session (fresh failed_login_mock)) LGNAME LGPASSWORD (JStr ''T1''))
     = (login_reply ''Failed'', [token_reply ''csrftoken'' anonymous_token, error_reply])"
    by simp
  have h4: "canned [token_reply ''csrftoken'' anonymous_token, error_reply]
        (edit_token_request (next_session (fresh failed_login_mock)))
     = (token_reply ''csrftoken'' anonymous_token, [error_reply])"
    by simp
  show ?thesis
    using login_result_only_printed [OF h1 h2 h3 h4, of sandbox_claim] h1 h2 h3 h4 by simp
qed

section \<open>The write\<close>

text \<open>
  C3, as stated, fails in its demand that the session be authenticated. In the run against
  \<open>failed_login_mock\<close> the commit request is issued although no login through
  session 0 was ever answered with \<^verbatim>\<open>Success\<close>.
\<close>

theorem unauthenticated_commit_counterexample:
  "is_commit (commit_request 0 sandbox_claim (JStr anonymous_token))
   \<and> commit_request 0 sandbox_claim (JStr anonymous_token)
       \<in> set (issued (fresh failed_login_mock)
                 (snd (run_cells (notebook canned) (fresh failed_login_mock))))
   \<and> \<not> authenticated
           (exchanges (snd (run_cells (notebook canned) (fresh failed_login_mock)))) 0"
  by (simp add: failed_login_run issued_def exchanged_def authenticated_def)

text \<open>
  C3, amended. Whatever the remote answers and whether or not the login succeeded: if a
  run of the procedure issues the commit request, then the run consists of exactly four
  calls, the third of which is the edit-token request, made before the commit through the
  same session (the one created at the start of this run); the reply to it carried an edit
  token, and that token is the one passed to the commit request.
\<close>

theorem commit_follows_edit_token:
  assumes "(q, r) \<in> set (exchanged st (snd (run_cells (write_procedure srv n p i) st)))"
    and "is_commit q"
  shows "\<exists>r1 t1 r2 r3 t2.
      exchanged st (snd (run_cells (write_procedure srv n p i) st)) =
        [(login_token_request (next_session st), r1),
         (login_request (next_session st) n p t1, r2),
         (edit_token_request (next_session st), r3),
         (q, r)]
      \<and> read_reply r3 csrftoken_path = Inr t2
      \<and> q = commit_request (next_session st) i t2
      \<and> via q = via (edit_token_request (next_session st))"
  using assms
  by (cases rule: run_cases [of srv st n p i])
     (auto simp add: exchanged_def)

text \<open>The amended statement at the refused login, where the write is attempted all the same.\<close>

theorem commit_follows_edit_token_witness:
  "(commit_request 0 sandbox_claim (JStr anonymous_token), error_reply)
      \<in> set (exchanged (fresh failed_login_mock)
                (snd (run_cells (write_procedure canned LGNAME LGPASSWORD sandbox_claim)
                        (fresh failed_login_mock))))
   \<and> is_commit (commit_request 0 sandbox_claim (JStr anonymous_token))
   \<and> (\<exists>r1 t1 r2 r3 t2.
        exchanged (fresh failed_login_mock)
          (snd (run_cells (write_procedure canned LGNAME LGPASSWORD sandbox_claim)
                  (fresh failed_login_mock))) =
          [(login_token_request (next_session (fresh failed_login_mock)), r1),
           (login_request (next_session (fresh failed_login_mock)) LGNAME LGPASSWORD t1, r2),
           (edit_token_request (next_session (fresh failed_login_mock)), r3),
           (commit_request 0 sandbox_claim (JStr anonymous_token), error_reply)]
        \<and> read_reply r3 csrftoken_path = Inr t2
        \<and> commit_request 0 sandbox_claim (JStr anonymous_token) =
            commit_request (next_session (fresh failed_login_mock)) sandbox_claim t2
        \<and> via (commit_request 0 sandbox_claim (JStr anonymous_token)) =
            via (edit_token_request (next_session (fresh failed_login_mock))))"
proof -
  have h1: "(commit_request 0 sandbox_claim (JStr anonymous_token), error_reply)
      \<in> set (exchanged (fresh failed_login_mock)
                (snd (run_cells (write_procedure canned LGNAME LGPASSWORD sandbox_claim)
                        (fresh failed_login_mock))))"
    by (simp add: failed_login_run notebook_def [symmetric] exchanged_def)
  have h2: "is_commit (commit_request 0 sandbox_claim (JStr anonymous_token))"
    by simp
  show ?thesis
    using commit_follows_edit_token [OF h1 h2] h1 h2 by simp
qed

text \<open>
  C9. If a run issues the commit request, the exchange immediately before it is the
  edit-token request, the token passed to the commit call is the value read at
  \<^verbatim>\<open>query.tokens.csrftoken\<close> from that exchange's reply, and the single variable
  \<^verbatim>\<open>token\<close> holds that value at the end of the run: the login token has been overwritten.
\<close>

theorem commit_uses_edit_token:
  assumes "(q, r) \<in> set (exchanged st (snd (run_cells (write_procedure srv n p i) st)))"
    and "is_commit q"
  shows "\<exists>pre r3 t2.
      exchanged st (snd (run_cells (write_procedure srv n p i) st)) =
        pre @ [(edit_token_request (next_session st), r3), (q, r)]
      \<and> read_reply r3 csrftoken_path = Inr t2
      \<and> map_of (params q) ''token'' = Some t2
      \<and> token (snd (run_cells (write_procedure srv n p i) st)) = Some t2"
  using assms
  by (cases rule: run_cases [of srv st n p i])
     (auto simp add: exchanged_def)

text \<open>In the recorded run the write carries \<^verbatim>\<open>T2\<close>, not the login token \<^verbatim>\<open>T1\<close>.\<close>

theorem commit_uses_edit_token_witness:
  "(commit_request 0 sandbox_claim (JStr ''T2''), confirmation_reply)
      \<in> set (exchanged (fresh recorded_mock)
                (snd (run_cells (write_procedure canned LGNAME LGPASSWORD sandbox_claim)
                        (fresh recorded_mock))))
   \<and> is_commit (commit_request 0 sandbox_claim (JStr ''T2''))
   \<and> (\<exists>pre r3 t2.
        exchanged (fresh recorded_mock)
          (snd (run_cells (write_procedure canned LGNAME LGPASSWORD sandbox_claim)
                  (fresh recorded_mock))) =
          pre @ [(edit_token_request (next_session (fresh recorded_mock)), r3),
                 (commit_request 0 sandbox_claim (JStr ''T2''), confirmation_reply)]
        \<and> read_reply r3 csrftoken_path = Inr t2
        \<and> map_of (params (commit_request 0 sandbox_claim (JStr ''T2''))) ''token'' = Some t2
        \<and> token (snd (run_cells (write_procedure canned LGNAME LGPASSWORD sandbox_claim)
                  (fresh recorded_mock))) = Some t2)"
proof -
  have h1: "(commit_request 0 sandbox_claim (JStr ''T2''), confirmation_reply)
      \<in> set (exchanged (fresh recorded_mock)
                (snd (run_cells (write_procedure canned LGNAME LGPASSWORD sandbox_claim)
                        (fresh recorded_mock))))"
    by (simp add: recorded_run notebook_def [symmetric] exchanged_def)
  have h2: "is_commit (commit_request 0 sandbox_claim (JStr ''T2''))"
    by simp
  show ?thesis
    using commit_uses_edit_token [OF h1 h2] h1 h2 by simp
qed

text \<open>
  C6. In every run of the procedure, whatever the remote service answers (failures of the
  write included), the commit request is sent at most once, and it is never followed by
  another call: if it is sent, it is the last call of the run.
\<close>

theorem commit_at_most_once:
  "length (filter is_commit (issued st (snd (run_cells (write_procedure srv n p i) st)))) \<le> 1
   \<and> filter is_commit
        (butlast (issued st (snd (run_cells (write_procedure srv n p i) st)))) = []"
  by (cases rule: run_cases [of srv st n p i])
     (simp_all add: issued_def exchanged_def)

text \<open>
  C5, as stated, fails. The claim is that the commit step yields a confirmation object
  (new statement identifier and revision id) or else an error object or failure
  indication, and nothing else. Cell 23 does not inspect the reply: when the service
  answers the write with the empty object, the step completes without an exception and
  prints that object, which is neither a confirmation nor an error object.
\<close>

theorem commit_third_outcome_counterexample:
  "fst (run_cells (notebook canned) (fresh empty_answer_mock)) = Inr ()
   \<and> last (exchanges (snd (run_cells (notebook canned) (fresh empty_answer_mock))))
       = (commit_request 0 sandbox_claim (JStr ''T2''), Response (Json (JObj [])))
   \<and> last (stdout (snd (run_cells (notebook canned) (fresh empty_answer_mock)))) = [JObj []]
   \<and> \<not> is_confirmation (JObj [])
   \<and> \<not> is_error_object (JObj [])"
  by (simp add: empty_answer_run is_confirmation_def is_error_object_def subscript_def)

text \<open>
  C5, amended. With \<^verbatim>\<open>session\<close> and \<^verbatim>\<open>token\<close> bound, the commit step sends exactly one
  request, built from the entity id, property id, value-type tag, summary, token and
  serialized value, and then does one of three things, decided by the reply alone: it
  raises \<^verbatim>\<open>ConnectionError\<close> and prints nothing; it raises the JSON decoding error and
  prints nothing; or it prints the decoded reply exactly as received and completes,
  whether that reply is a confirmation, an error object or any other JSON value.
\<close>

theorem commit_step_outcome:
  assumes "session st = Some s" and "token st = Some t"
    and "srv (world st) (commit_request s i t) = (r, w')"
  shows "issued st (snd (cell23 srv (entity i) (property i) (snaktype i) (summary i) (val i) st))
           = [commit_request s i t]
     \<and> (case r of
          ConnectionFailed \<Rightarrow>
            fst (cell23 srv (entity i) (property i) (snaktype i) (summary i) (val i) st)
              = Inl ConnectionError
            \<and> printed st
                (snd (cell23 srv (entity i) (property i) (snaktype i) (summary i) (val i) st))
              = []
        | Response NotJson \<Rightarrow>
            fst (cell23 srv (entity i) (property i) (snaktype i) (summary i) (val i) st)
              = Inl JSONDecodeError
            \<and> printed st
                (snd (cell23 srv (entity i) (property i) (snaktype i) (summary i) (val i) st))
              = []
        | Response (Json j) \<Rightarrow>
            fst (cell23 srv (entity i) (property i) (snaktype i) (summary i) (val i) st)
              = Inr ()
            \<and> printed st
                (snd (cell23 srv (entity i) (property i) (snaktype i) (summary i) (val i) st))
              = [[j]])"
  using assms
  by (simp add: cell23_eq issued_def exchanged_def printed_def split: reply.splits body.splits)

text \<open>The amended statement at the empty object.\<close>

theorem commit_step_outcome_witness:
  "session ((fresh [Response (Json (JObj []))])\<lparr>session := Some 0, token := Some (JStr ''T2'')\<rparr>)
     = Some 0
   \<and> token ((fresh [Response (Json (JObj []))])\<lparr>session := Some 0, token := Some (JStr ''T2'')\<rparr>)
     = Some (JStr ''T2'')
   \<and> canned
        (world ((fresh [Response (Json (JObj []))])\<lparr>session := Some 0,
                  token := Some (JStr ''T2'')\<rparr>))
        (commit_request 0 sandbox_claim (JStr ''T2''))
     = (Response (Json (JObj [])), [])
   \<and> issued ((fresh [Response (Json (JObj []))])\<lparr>session := Some 0, token := Some (JStr ''T2'')\<rparr>)
        (snd (cell23 canned (entity sandbox_claim) (property sandbox_claim)
                (snaktype sandbox_claim) (summary sandbox_claim) (val sandbox_claim)
                ((fresh [Response (Json (JObj []))])\<lparr>session := Some 0,
                   token := Some (JStr ''T2'')\<rparr>)))
     = [commit_request 0 sandbox_claim (JStr ''T2'')]
   \<and> fst (cell23 canned (entity sandbox_claim) (property sandbox_claim)
                (snaktype sandbox_claim) (summary sandbox_claim) (val sandbox_claim)
                ((fresh [Response (Json (JObj []))])\<lparr>session := Some 0,
                   token := Some (JStr ''T2'')\<rparr>))
     = Inr ()
   \<and> printed ((fresh [Response (Json (JObj []))])\<lparr>session := Some 0, token := Some (JStr ''T2'')\<rparr>)
        (snd (cell23 canned (entity sandbox_claim) (property sandbox_claim)
                (snaktype sandbox_claim) (summary sandbox_claim) (val sandbox_claim)
                ((fresh [Response (Json (JObj []))])\<lparr>session := Some 0,
                   token := Some (JStr ''T2'')\<rparr>)))
     = [[JObj []]]"
proof -
  let ?st = "(fresh [Response (Json (JObj []))])\<lparr>session := Some 0, token := Some (JStr ''T2'')\<rparr>"
  have h1: "session ?st = Some 0"
    by simp
  have h2: "token ?st = Some (JStr ''T2'')"
    by simp
  have h3: "canned (world ?st) (commit_request 0 sandbox_claim (JStr ''T2''))
      = (Response (Json (JObj [])), [])"
    by simp
  show ?thesis
    using commit_step_outcome [where srv = canned and i = sandbox_claim, OF h1 h2 h3] h1 h2 h3
    by simp
qed

text \<open>
  C7. Invoking the commit cell twice in a row with the same session, the same token and
  the same payload (the second time from whatever state the first invocation left,
  exception or not) sends two identical write requests, one after the other, and the
  remote side is stepped twice: nothing in the cell remembers or suppresses an earlier
  write.
\<close>

theorem commit_twice_not_deduplicated:
  assumes "session st = Some s" and "token st = Some t"
  shows "exchanged st
           (snd (cell23 srv (entity i) (property i) (snaktype i) (summary i) (val i)
              (snd (cell23 srv (entity i) (property i) (snaktype i) (summary i) (val i) st))))
         = [(commit_request s i t, fst (srv (world st) (commit_request s i t))),
            (commit_request s i t,
             fst (srv (snd (srv (world st) (commit_request s i t))) (commit_request s i t)))]
     \<and> world
         (snd (cell23 srv (entity i) (property i) (snaktype i) (summary i) (val i)
            (snd (cell23 srv (entity i) (property i) (snaktype i) (summary i) (val i) st))))
       = snd (srv (snd (srv (world st) (commit_request s i t))) (commit_request s i t))"
proof -
  obtain r1 w1 where a: "srv (world st) (commit_request s i t) = (r1, w1)"
    by force
  obtain r2 w2 where b: "srv w1 (commit_request s i t) = (r2, w2)"
    by force
  show ?thesis
    using assms a b
    by (simp add: cell23_eq exchanged_def split: sum.splits)
qed

text \<open>
  Against a remote that applies every write it receives, the two invocations leave two
  stored writes and get two different revision numbers back.
\<close>

theorem commit_twice_not_deduplicated_witness:
  "session ((fresh [])\<lparr>session := Some 0, token := Some (JStr ''T2'')\<rparr>) = Some 0
   \<and> token ((fresh [])\<lparr>session := Some 0, token := Some (JStr ''T2'')\<rparr>) = Some (JStr ''T2'')
   \<and> exchanged ((fresh [])\<lparr>session := Some 0, token := Some (JStr ''T2'')\<rparr>)
        (snd (cell23 ledger (entity sandbox_claim) (property sandbox_claim)
                (snaktype sandbox_claim) (summary sandbox_claim) (val sandbox_claim)
           (snd (cell23 ledger (entity sandbox_claim) (property sandbox_claim)
                   (snaktype sandbox_claim) (summary sandbox_claim) (val sandbox_claim)
                   ((fresh [])\<lparr>session := Some 0, token := Some (JStr ''T2'')\<rparr>)))))
     = [(commit_request 0 sandbox_claim (JStr ''T2''),
         Response (Json (JObj [(''pageinfo'', JObj [(''lastrevid'', JNum 1)]),
                               (''success'', JNum 1),
                               (''claim'', JObj [(''id'', JNum 1)])]))),
        (commit_request 0 sandbox_claim (JStr ''T2''),
         Response (Json (JObj [(''pageinfo'', JObj [(''lastrevid'', JNum 2)]),
                               (''success'', JNum 1),
                               (''claim'', JObj [(''id'', JNum 2)])])))]
   \<and> world
        (snd (cell23 ledger (entity sandbox_claim) (property sandbox_claim)
                (snaktype sandbox_claim) (summary sandbox_claim) (val sandbox_claim)
           (snd (cell23 ledger (entity sandbox_claim) (property sandbox_claim)
                   (snaktype sandbox_claim) (summary sandbox_claim) (val sandbox_claim)
                   ((fresh [])\<lparr>session := Some 0, token := Some (JStr ''T2'')\<rparr>)))))
     = [commit_request 0 sandbox_claim (JStr ''T2''), commit_request 0 sandbox_claim (JStr ''T2'')]"
proof -
  let ?st = "(fresh [])\<lparr>session := Some 0, token := Some (JStr ''T2'')\<rparr>"
  have h1: "session ?st = Some 0"
    by simp
  have h2: "token ?st = Some (JStr ''T2'')"
    by simp
  show ?thesis
    using commit_twice_not_deduplicated [OF h1 h2, of ledger sandbox_claim] h1 h2
    by (simp add: ledger_def)
qed

section \<open>Errors\<close>

text \<open>
  C8, as stated, fails for the errors that the service reports inside a readable reply.
  The claim is that every error, refused credentials and refused payloads included,
  propagates to the caller. Against \<open>failed_login_mock\<close> the login is refused and
  the write is answered with an error object, yet the run ends without any exception,
  with the same outcome as the recorded successful run, after making all four calls.
\<close>

theorem refused_login_not_raised_counterexample:
  "read_reply (login_reply ''Failed'') result_path = Inr (JStr ''Failed'')
   \<and> error_reply = Response (Json (JObj [(''error'', JObj [(''code'', JStr ''badtoken'')])]))
   \<and> is_error_object (JObj [(''error'', JObj [(''code'', JStr ''badtoken'')])])
   \<and> map snd (exchanged (fresh failed_login_mock)
                 (snd (run_cells (notebook canned) (fresh failed_login_mock))))
       = [token_reply ''logintoken'' ''T1'', login_reply ''Failed'',
          token_reply ''csrftoken'' anonymous_token, error_reply]
   \<and> fst (run_cells (notebook canned) (fresh failed_login_mock)) = Inr ()
   \<and> fst (run_cells (notebook canned) (fresh failed_login_mock))
       = fst (run_cells (notebook canned) (fresh recorded_mock))"
  by (simp add: failed_login_run recorded_run exchanged_def error_reply_def
        is_error_object_def subscript_def)

text \<open>
  C8, amended. For every exchange of a run: if the reply cannot be used by the cell that
  asked for it (no connection, body not JSON, an expected key missing, as when the service
  sends an error object in place of a token), the exception raised is the outcome of the
  whole run, unchanged, and that exchange is the last one of the run, so nothing is sent
  afterwards to recover, retry or compensate. Conversely an exception ending the run is
  always the one raised on the last reply, and a run without exception has made all four
  calls. Errors the service reports inside a readable reply are not raised: the login
  result, a refusal included, is printed as received and the run goes on to the
  edit-token request; the answer to the write, an error object included, is printed as
  received and the run ends without exception.
\<close>

theorem errors_propagate:
  assumes "(q, r) \<in> set (exchanged st (snd (run_cells (write_procedure srv n p i) st)))"
  shows "(case read_reply r (expected_path q) of
            Inl e \<Rightarrow>
              fst (run_cells (write_procedure srv n p i) st) = Inl e
              \<and> last (exchanged st (snd (run_cells (write_procedure srv n p i) st))) = (q, r)
          | Inr v \<Rightarrow>
              (if is_login q
               then [JStr ''login:'', v]
                      \<in> set (printed st (snd (run_cells (write_procedure srv n p i) st)))
                    \<and> take 3 (issued st (snd (run_cells (write_procedure srv n p i) st)))
                        = [login_token_request (next_session st), q,
                           edit_token_request (next_session st)]
               else if is_commit q
               then [v] \<in> set (printed st (snd (run_cells (write_procedure srv n p i) st)))
                    \<and> fst (run_cells (write_procedure srv n p i) st) = Inr ()
               else True))
     \<and> (case fst (run_cells (write_procedure srv n p i) st) of
          Inl e \<Rightarrow>
            read_reply (snd (last (exchanged st (snd (run_cells (write_procedure srv n p i) st)))))
              (expected_path
                 (fst (last (exchanged st (snd (run_cells (write_procedure srv n p i) st))))))
              = Inl e
        | Inr u \<Rightarrow>
            length (exchanged st (snd (run_cells (write_procedure srv n p i) st))) = 4)"
  using assms
  by (cases rule: run_cases [of srv st n p i])
     (auto simp add: exchanged_def printed_def issued_def)

text \<open>
  A write whose answer is lost: the connection error is the outcome of the run. A refused
  login: the refusal is printed and the edit-token request follows.
\<close>

theorem errors_propagate_witness:
  "(commit_request 0 sandbox_claim (JStr ''T2''), ConnectionFailed)
      \<in> set (exchanged (fresh lost_answer_mock)
                (snd (run_cells (write_procedure canned LGNAME LGPASSWORD sandbox_claim)
                        (fresh lost_answer_mock))))
   \<and> read_reply ConnectionFailed (expected_path (commit_request 0 sandbox_claim (JStr ''T2'')))
       = Inl ConnectionError
   \<and> fst (run_cells (write_procedure canned LGNAME LGPASSWORD sandbox_claim)
            (fresh lost_answer_mock)) = Inl ConnectionError
   \<and> last (exchanged (fresh lost_answer_mock)
              (snd (run_cells (write_procedure canned LGNAME LGPASSWORD sandbox_claim)
                      (fresh lost_answer_mock))))
       = (commit_request 0 sandbox_claim (JStr ''T2''), ConnectionFailed)
   \<and> (login_request 0 LGNAME LGPASSWORD (JStr ''T1''), login_reply ''Failed'')
      \<in> set (exchanged (fresh failed_login_mock)
                (snd (run_cells (write_procedure canned LGNAME LGPASSWORD sandbox_claim)
                        (fresh failed_login_mock))))
   \<and> read_reply (login_reply ''Failed'')
        (expected_path (login_request 0 LGNAME LGPASSWORD (JStr ''T1'')))
       = Inr (JStr ''Failed'')
   \<and> [JStr ''login:'', JStr ''Failed'']
      \<in> set (printed (fresh failed_login_mock)
                (snd (run_cells (write_procedure canned LGNAME LGPASSWORD sandbox_claim)
                        (fresh failed_login_mock))))
   \<and> take 3 (issued (fresh failed_login_mock)
                (snd (run_cells (write_procedure canned LGNAME LGPASSWORD sandbox_claim)
                        (fresh failed_login_mock))))
       = [login_token_request 0, login_request 0 LGNAME LGPASSWORD (JStr ''T1''),
          edit_token_request 0]"
proof -
  have h1: "(commit_request 0 sandbox_claim (JStr ''T2''), ConnectionFailed)
      \<in> set (exchanged (fresh lost_answer_mock)
                (snd (run_cells (write_procedure canned LGNAME LGPASSWORD sandbox_claim)
                        (fresh lost_answer_mock))))"
    by (simp add: lost_answer_run notebook_def [symmetric] exchanged_def)
  have h2: "(login_request 0 LGNAME LGPASSWORD (JStr ''T1''), login_reply ''Failed'')
      \<in> set (exchanged (fresh failed_login_mock)
                (snd (run_cells (write_procedure canned LGNAME LGPASSWORD sandbox_claim)
                        (fresh failed_login_mock))))"
    by (simp add: failed_login_run notebook_def [symmetric] exchanged_def)
  show ?thesis
    using errors_propagate [OF h1] errors_propagate [OF h2] h1 h2 by simp
qed

section \<open>Displaying search hits\<close>

text \<open>
  C10. For every list of search hits (each a dict with a string \<^verbatim>\<open>id\<close>, whose
  \<^verbatim>\<open>label\<close> and \<^verbatim>\<open>description\<close> are strings where present), the display loop runs
  to the end without any exception and prints one line per hit, in order: the id, a colon,
  the label or the empty string when there is none, a space, and the description in
  parentheses or nothing when there is none.
\<close>

theorem show_hits_total:
  assumes "list_all search_hit hits"
  shows "show_hits hits st =
           (Inr (), st\<lparr>stdout := stdout st @ map (\<lambda>h. [JStr (hit_text h)]) hits\<rparr>)"
  using assms
proof (induction hits arbitrary: st)
  case Nil
  show ?case by (simp add: py_return_def)
next
  case (Cons h hits)
  then show ?case by (simp add: show_hit_ok py_bind_def)
qed

text \<open>Three hits: a full one, one without description, one without label and description.\<close>

theorem show_hits_total_witness:
  "list_all search_hit zurich_hits
   \<and> show_hits zurich_hits (fresh ()) =
       (Inr (),
        (fresh ())\<lparr>stdout :=
           [[JStr ''Q72: Zurich (capital of the canton)''],
            [JStr ''Q660732: Zurich District ''],
            [JStr ''Q19240447:  '']]\<rparr>)"
proof -
  have h: "list_all search_hit zurich_hits"
    by (simp add: zurich_hits_def search_hit_def str_or_absent_def)
  show ?thesis
    using show_hits_total [OF h, of "fresh ()"] h
    by (simp add: zurich_hits_def hit_text_def str_field_def)
qed

end
